theory Spec2Isabelle
  imports Main
begin

section \<open>JavaScript values\<close>

text \<open>
  Several parameters of the SDK are typed \<^verbatim>\<open>any\<close> (the decoded response body, the
  details payload of an error). They are modelled by the JSON values plus
  \<^verbatim>\<open>undefined\<close>. A JavaScript number is modelled at its integer values; a string
  is a list of characters, one per UTF-16 code unit.
\<close>

datatype jsval =
    JUndefined
  | JNull
  | JBool bool
  | JNum int
  | JStr string
  | JArr "jsval list"
  | JObj "(string \<times> jsval) list"

text \<open>Truthiness, as \<^verbatim>\<open>if (v)\<close>, \<^verbatim>\<open>!v\<close> and \<^verbatim>\<open>a || b\<close> test it.\<close>

fun truthy :: "jsval \<Rightarrow> bool" where
  "truthy JUndefined = False"
| "truthy JNull = False"
| "truthy (JBool b) = b"
| "truthy (JNum n) = (n \<noteq> 0)"
| "truthy (JStr s) = (s \<noteq> [])"
| "truthy (JArr xs) = True"
| "truthy (JObj kvs) = True"

text \<open>\<^verbatim>\<open>a || b\<close>: the left operand when it is truthy, the right one otherwise.\<close>

definition js_or :: "jsval \<Rightarrow> jsval \<Rightarrow> jsval" where
  "js_or a b = (if truthy a then a else b)"

text \<open>
  \<^verbatim>\<open>v?.k\<close> for the property names the SDK reads (error, message, details, meta,
  requestId): \<^verbatim>\<open>undefined\<close> on \<^verbatim>\<open>undefined\<close> and \<^verbatim>\<open>null\<close>, the own property
  of an object, and \<^verbatim>\<open>undefined\<close> on every primitive and array, which have no
  property of these names.
\<close>

fun js_get :: "jsval \<Rightarrow> string \<Rightarrow> jsval" where
  "js_get (JObj kvs) k = (case map_of kvs k of Some v \<Rightarrow> v | None \<Rightarrow> JUndefined)"
| "js_get v k = JUndefined"

text \<open>\<^verbatim>\<open>Array.isArray(v)\<close>.\<close>

fun isArray :: "jsval \<Rightarrow> bool" where
  "isArray (JArr xs) = True"
| "isArray v = False"

text \<open>Decimal digits of a natural number, most significant first.\<close>

definition digit_char :: "nat \<Rightarrow> char" where
  "digit_char d = ''0123456789'' ! d"

function digits :: "nat \<Rightarrow> string" where
  "digits n = (if n < 10 then [digit_char n] else digits (n div 10) @ [digit_char (n mod 10)])"
  by pat_completeness auto
termination
  by (relation "measure (\<lambda>n. n)") auto

text \<open>\<^verbatim>\<open>n.toString()\<close> of an integer-valued number (below the 1e21 switch to
  exponent notation).\<close>

definition number_toString :: "int \<Rightarrow> string" where
  "number_toString n = (if n < 0 then CHR ''-'' # digits (nat (- n)) else digits (nat n))"

text \<open>\<^verbatim>\<open>b.toString()\<close> of a boolean.\<close>

definition boolean_toString :: "bool \<Rightarrow> string" where
  "boolean_toString b = (if b then ''true'' else ''false'')"

text \<open>\<^verbatim>\<open>xs.join(sep)\<close> on strings.\<close>

fun join :: "string \<Rightarrow> string list \<Rightarrow> string" where
  "join sep [] = []"
| "join sep [x] = x"
| "join sep (x # y # ys) = x @ sep @ join sep (y # ys)"

text \<open>
  The string conversion the \<^verbatim>\<open>Error\<close> constructor applies to its message argument:
  an array joins its elements with commas (\<^verbatim>\<open>undefined\<close> and \<^verbatim>\<open>null\<close> elements as the
  empty string), a plain object is \<^verbatim>\<open>[object Object]\<close>.
\<close>

fun js_toString :: "jsval \<Rightarrow> string" where
  "js_toString JUndefined = ''undefined''"
| "js_toString JNull = ''null''"
| "js_toString (JBool b) = boolean_toString b"
| "js_toString (JNum n) = number_toString n"
| "js_toString (JStr s) = s"
| "js_toString (JArr xs) =
     join '','' (map (\<lambda>x. if x = JUndefined \<or> x = JNull then [] else js_toString x) xs)"
| "js_toString (JObj kvs) = ''[object Object]''"

section \<open>The transport library's error (axios)\<close>

text \<open>
  An \<^verbatim>\<open>AxiosResponse\<close> as far as the SDK reads it: the status, the decoded body
  and the response headers (a header that is not there reads \<^verbatim>\<open>undefined\<close>).
\<close>

record AxiosResponse =
  status :: int
  data :: jsval
  headers :: "(string \<times> jsval) list"

text \<open>
  An \<^verbatim>\<open>AxiosError\<close>: the library's error code (\<^verbatim>\<open>ECONNABORTED\<close> on a timeout or
  abort), its message, and the response when the server answered.
\<close>

record AxiosError =
  code :: "string option"
  message :: string
  response :: "AxiosResponse option"

section \<open>Error taxonomy (types/errors.ts)\<close>

datatype VantigeErrorCode =
    INVALID_API_KEY
  | EXPIRED_API_KEY
  | INSUFFICIENT_PERMISSIONS
  | RATE_LIMIT_EXCEEDED
  | KNOWLEDGE_BASE_NOT_FOUND
  | KNOWLEDGE_BASE_ACCESS_DENIED
  | KNOWLEDGE_BASE_CREATION_FAILED
  | KNOWLEDGE_BASE_IMPORT_FAILED
  | INVALID_QUERY
  | QUERY_TOO_LONG
  | NO_RESULTS_FOUND
  | QUERY_TIMEOUT
  | DOCUMENT_NOT_FOUND
  | DOCUMENT_UPLOAD_FAILED
  | UNSUPPORTED_FILE_TYPE
  | FILE_TOO_LARGE
  | DOCUMENT_PROCESSING_FAILED
  | CHAT_SESSION_NOT_FOUND
  | CHAT_SESSION_EXPIRED
  | INVALID_CHAT_MESSAGE
  | NETWORK_ERROR
  | REQUEST_TIMEOUT
  | SERVICE_UNAVAILABLE
  | VALIDATION_ERROR
  | MISSING_REQUIRED_FIELD
  | INVALID_FIELD_VALUE
  | INTERNAL_SERVER_ERROR
  | SERVICE_TEMPORARILY_UNAVAILABLE
  | SDK_INITIALIZATION_ERROR
  | UNSUPPORTED_OPERATION
  | CONFIGURATION_ERROR

text \<open>The enumeration is a string enum: the run-time value of each member.\<close>

fun enum_value :: "VantigeErrorCode \<Rightarrow> string" where
  "enum_value INVALID_API_KEY = ''INVALID_API_KEY''"
| "enum_value EXPIRED_API_KEY = ''EXPIRED_API_KEY''"
| "enum_value INSUFFICIENT_PERMISSIONS = ''INSUFFICIENT_PERMISSIONS''"
| "enum_value RATE_LIMIT_EXCEEDED = ''RATE_LIMIT_EXCEEDED''"
| "enum_value KNOWLEDGE_BASE_NOT_FOUND = ''KNOWLEDGE_BASE_NOT_FOUND''"
| "enum_value KNOWLEDGE_BASE_ACCESS_DENIED = ''KNOWLEDGE_BASE_ACCESS_DENIED''"
| "enum_value KNOWLEDGE_BASE_CREATION_FAILED = ''KNOWLEDGE_BASE_CREATION_FAILED''"
| "enum_value KNOWLEDGE_BASE_IMPORT_FAILED = ''KNOWLEDGE_BASE_IMPORT_FAILED''"
| "enum_value INVALID_QUERY = ''INVALID_QUERY''"
| "enum_value QUERY_TOO_LONG = ''QUERY_TOO_LONG''"
| "enum_value NO_RESULTS_FOUND = ''NO_RESULTS_FOUND''"
| "enum_value QUERY_TIMEOUT = ''QUERY_TIMEOUT''"
| "enum_value DOCUMENT_NOT_FOUND = ''DOCUMENT_NOT_FOUND''"
| "enum_value DOCUMENT_UPLOAD_FAILED = ''DOCUMENT_UPLOAD_FAILED''"
| "enum_value UNSUPPORTED_FILE_TYPE = ''UNSUPPORTED_FILE_TYPE''"
| "enum_value FILE_TOO_LARGE = ''FILE_TOO_LARGE''"
| "enum_value DOCUMENT_PROCESSING_FAILED = ''DOCUMENT_PROCESSING_FAILED''"
| "enum_value CHAT_SESSION_NOT_FOUND = ''CHAT_SESSION_NOT_FOUND''"
| "enum_value CHAT_SESSION_EXPIRED = ''CHAT_SESSION_EXPIRED''"
| "enum_value INVALID_CHAT_MESSAGE = ''INVALID_CHAT_MESSAGE''"
| "enum_value NETWORK_ERROR = ''NETWORK_ERROR''"
| "enum_value REQUEST_TIMEOUT = ''REQUEST_TIMEOUT''"
| "enum_value SERVICE_UNAVAILABLE = ''SERVICE_UNAVAILABLE''"
| "enum_value VALIDATION_ERROR = ''VALIDATION_ERROR''"
| "enum_value MISSING_REQUIRED_FIELD = ''MISSING_REQUIRED_FIELD''"
| "enum_value INVALID_FIELD_VALUE = ''INVALID_FIELD_VALUE''"
| "enum_value INTERNAL_SERVER_ERROR = ''INTERNAL_SERVER_ERROR''"
| "enum_value SERVICE_TEMPORARILY_UNAVAILABLE = ''SERVICE_TEMPORARILY_UNAVAILABLE''"
| "enum_value SDK_INITIALIZATION_ERROR = ''SDK_INITIALIZATION_ERROR''"
| "enum_value UNSUPPORTED_OPERATION = ''UNSUPPORTED_OPERATION''"
| "enum_value CONFIGURATION_ERROR = ''CONFIGURATION_ERROR''"

fun ErrorMessages :: "VantigeErrorCode \<Rightarrow> string" where
  "ErrorMessages INVALID_API_KEY = ''The provided API key is invalid or malformed''"
| "ErrorMessages EXPIRED_API_KEY = ''The API key has expired''"
| "ErrorMessages INSUFFICIENT_PERMISSIONS =
     ''Insufficient permissions. This API key may not have the required scope for this operation''"
| "ErrorMessages RATE_LIMIT_EXCEEDED = ''Rate limit exceeded. Please try again later''"
| "ErrorMessages KNOWLEDGE_BASE_NOT_FOUND = ''Knowledge base not found''"
| "ErrorMessages KNOWLEDGE_BASE_ACCESS_DENIED = ''Access denied to knowledge base''"
| "ErrorMessages KNOWLEDGE_BASE_CREATION_FAILED = ''Failed to create knowledge base''"
| "ErrorMessages KNOWLEDGE_BASE_IMPORT_FAILED = ''Failed to import data into knowledge base''"
| "ErrorMessages INVALID_QUERY = ''The query is invalid or malformed''"
| "ErrorMessages QUERY_TOO_LONG = ''Query exceeds maximum length limit''"
| "ErrorMessages NO_RESULTS_FOUND = ''No results found for the query''"
| "ErrorMessages QUERY_TIMEOUT = ''Query timed out''"
| "ErrorMessages DOCUMENT_NOT_FOUND = ''Document not found''"
| "ErrorMessages DOCUMENT_UPLOAD_FAILED = ''Document upload failed''"
| "ErrorMessages UNSUPPORTED_FILE_TYPE = ''Unsupported file type''"
| "ErrorMessages FILE_TOO_LARGE = ''File size exceeds maximum limit''"
| "ErrorMessages DOCUMENT_PROCESSING_FAILED = ''Document processing failed''"
| "ErrorMessages CHAT_SESSION_NOT_FOUND = ''Chat session not found''"
| "ErrorMessages CHAT_SESSION_EXPIRED = ''Chat session has expired''"
| "ErrorMessages INVALID_CHAT_MESSAGE = ''Invalid chat message format''"
| "ErrorMessages NETWORK_ERROR = ''Network error occurred''"
| "ErrorMessages REQUEST_TIMEOUT = ''Request timed out''"
| "ErrorMessages SERVICE_UNAVAILABLE = ''Service is currently unavailable''"
| "ErrorMessages VALIDATION_ERROR = ''Validation error''"
| "ErrorMessages MISSING_REQUIRED_FIELD = ''Missing required field''"
| "ErrorMessages INVALID_FIELD_VALUE = ''Invalid field value''"
| "ErrorMessages INTERNAL_SERVER_ERROR = ''Internal server error''"
| "ErrorMessages SERVICE_TEMPORARILY_UNAVAILABLE = ''Service temporarily unavailable''"
| "ErrorMessages SDK_INITIALIZATION_ERROR = ''SDK initialization error''"
| "ErrorMessages UNSUPPORTED_OPERATION = ''Unsupported operation''"
| "ErrorMessages CONFIGURATION_ERROR = ''Configuration error''"

text \<open>
  The class \<^verbatim>\<open>VantigeSDKError\<close>. The two fields read from the environment at
  construction, the timestamp (the clock) and the stack (the V8 call stack), are
  left out of the record: nothing below depends on them.
\<close>

record VantigeSDKError =
  name :: string
  message :: string
  code :: VantigeErrorCode
  statusCode :: int
  details :: "jsval list"
  requestId :: jsval

text \<open>
  The constructor: \<^verbatim>\<open>statusCode\<close> and \<^verbatim>\<open>details\<close> have default values, which
  JavaScript uses when the argument is \<^verbatim>\<open>undefined\<close> (here \<open>None\<close>). The message
  is the string that \<^verbatim>\<open>super(message)\<close> stores.
\<close>

definition new_VantigeSDKError ::
  "string \<Rightarrow> VantigeErrorCode \<Rightarrow> int option \<Rightarrow> jsval list option \<Rightarrow> jsval \<Rightarrow> VantigeSDKError" where
  "new_VantigeSDKError msg c sc ds rid =
     \<lparr> name = ''VantigeSDKError'',
       message = msg,
       code = c,
       statusCode = (case sc of None \<Rightarrow> 500 | Some n \<Rightarrow> n),
       details = (case ds of None \<Rightarrow> [] | Some xs \<Rightarrow> xs),
       requestId = rid \<rparr>"

text \<open>
  \<^verbatim>\<open>createVantigeError(code, message?, statusCode?, details?, requestId?)\<close>. An
  argument left out is \<^verbatim>\<open>undefined\<close>: \<open>JUndefined\<close> for the message, the details and
  the request id, \<open>None\<close> for the status. The message is declared a string, but
  \<open>handleError\<close> passes values read from the response body, so it is a value here
  and the \<^verbatim>\<open>Error\<close> constructor's conversion to a string is applied to
  \<^verbatim>\<open>message || ErrorMessages[code]\<close>. \<^verbatim>\<open>statusCode || 500\<close> takes 500 for a missing
  status and for the falsy number 0.
\<close>

definition createVantigeError ::
  "VantigeErrorCode \<Rightarrow> jsval \<Rightarrow> int option \<Rightarrow> jsval \<Rightarrow> jsval \<Rightarrow> VantigeSDKError" where
  "createVantigeError c msg sc ds rid =
     new_VantigeSDKError
       (js_toString (js_or msg (JStr (ErrorMessages c))))
       c
       (Some (case sc of None \<Rightarrow> 500 | Some n \<Rightarrow> if n = 0 then 500 else n))
       (Some (case ds of JArr xs \<Rightarrow> xs | _ \<Rightarrow> if truthy ds then [ds] else []))
       rid"

text \<open>\<^verbatim>\<open>toJSON()\<close>: the plain record of the error (without timestamp and stack).\<close>

definition toJSON :: "VantigeSDKError \<Rightarrow> jsval" where
  "toJSON e = JObj
     [ (''name'', JStr (name e)),
       (''message'', JStr (message e)),
       (''code'', JStr (enum_value (code e))),
       (''statusCode'', JNum (statusCode e)),
       (''details'', JArr (details e)),
       (''requestId'', requestId e) ]"

section \<open>Credential guard (auth/index.ts, types/validation.ts)\<close>

text \<open>\<^verbatim>\<open>s.startsWith(p)\<close>.\<close>

definition startsWith :: "string \<Rightarrow> string \<Rightarrow> bool" where
  "startsWith s p = (take (length p) s = p)"

text \<open>\<^verbatim>\<open>validateApiKey\<close> of types/validation.ts.\<close>

definition validateApiKey :: "string \<Rightarrow> bool" where
  "validateApiKey apiKey = (startsWith apiKey ''vk_live_'' \<or> startsWith apiKey ''vk_test_'')"

text \<open>The character class \<^verbatim>\<open>[a-zA-Z0-9]\<close>.\<close>

definition is_alnum :: "char \<Rightarrow> bool" where
  "is_alnum c =
     (let n = (of_char c :: nat)
      in (97 \<le> n \<and> n \<le> 122) \<or> (65 \<le> n \<and> n \<le> 90) \<or> (48 \<le> n \<and> n \<le> 57))"

text \<open>
  \<^verbatim>\<open>keyPattern.test(apiKey)\<close> for the anchored pattern
  \<^verbatim>\<open>/^vk_(live|test)_[a-zA-Z0-9]{32,}$/\<close>: one of the two prefixes (8 characters
  each), then at least 32 characters, all of them letters or digits, up to the end.
\<close>

definition keyPattern_test :: "string \<Rightarrow> bool" where
  "keyPattern_test apiKey =
     ((startsWith apiKey ''vk_live_'' \<or> startsWith apiKey ''vk_test_'')
      \<and> 32 \<le> length (drop 8 apiKey) \<and> list_all is_alnum (drop 8 apiKey))"

text \<open>The message naming the two prefixes; \<open>CHR 0x22\<close> is the double quote.\<close>

definition prefix_message :: string where
  "prefix_message =
     ''API key must start with '' @ [CHR 0x22] @ ''vk_live_'' @ [CHR 0x22]
       @ '' or '' @ [CHR 0x22] @ ''vk_test_'' @ [CHR 0x22]"

record VantigeAuth =
  apiKey :: string
  isTestKey :: bool

text \<open>
  The constructor of \<^verbatim>\<open>VantigeAuth\<close> is \<^verbatim>\<open>validateAndSetApiKey\<close>: it throws
  (\<open>Inl\<close>) at the first check that fails, and sets the two fields otherwise.
\<close>

definition validateAndSetApiKey :: "string \<Rightarrow> VantigeSDKError + VantigeAuth" where
  "validateAndSetApiKey k =
     (if k = [] then
        Inl (createVantigeError INVALID_API_KEY (JStr ''API key is required'')
               None JUndefined JUndefined)
      else if \<not> validateApiKey k then
        Inl (createVantigeError INVALID_API_KEY (JStr prefix_message)
               None JUndefined JUndefined)
      else if \<not> keyPattern_test k then
        Inl (createVantigeError INVALID_API_KEY (JStr ''API key format is invalid'')
               None JUndefined JUndefined)
      else Inr \<lparr> apiKey = k, isTestKey = startsWith k ''vk_test_'' \<rparr>)"

datatype Environment = Test | Live

definition getEnvironment :: "VantigeAuth \<Rightarrow> Environment" where
  "getEnvironment a = (if isTestKey a then Test else Live)"

definition maskApiKey :: "VantigeAuth \<Rightarrow> string" where
  "maskApiKey a =
     (if length (apiKey a) < 12 then apiKey a
      else
        let pre = take 8 (apiKey a);
            suffix = drop (length (apiKey a) - 4) (apiKey a);
            maskedLength = length (apiKey a) - 12;
            masked = replicate maskedLength (CHR ''*'')
        in pre @ masked @ suffix)"

record KeyFormatResult =
  isValid :: bool
  environment :: "Environment option"
  errors :: "string list"

text \<open>
  The static \<^verbatim>\<open>validateKeyFormat\<close>: never throws. An empty key returns at once with
  one message; otherwise each of the three checks adds its message.
\<close>

definition validateKeyFormat :: "string \<Rightarrow> KeyFormatResult" where
  "validateKeyFormat k =
     (if k = [] then
        \<lparr> isValid = False, environment = None, errors = [''API key is required''] \<rparr>
      else
        let errs1 = (if \<not> startsWith k ''vk_live_'' \<and> \<not> startsWith k ''vk_test_''
                     then [prefix_message] else []);
            errs2 = errs1 @ (if \<not> keyPattern_test k then [''API key format is invalid''] else []);
            errs3 = errs2 @ (if length k < 40 then [''API key is too short''] else []);
            valid = (length errs3 = 0);
            env = (if startsWith k ''vk_test_'' then Test else Live)
        in \<lparr> isValid = valid,
             environment = (if valid then Some env else None),
             errors = errs3 \<rparr>)"

section \<open>Resilient request executor (client/http-client.ts)\<close>

text \<open>
  What a rejected promise carries: an error of the SDK already, an error of the
  transport library, or any other thrown object, of which only the \<^verbatim>\<open>message\<close>
  property is read.
\<close>

datatype thrown =
    ThrownSDK VantigeSDKError
  | ThrownAxios AxiosError
  | ThrownOther jsval

definition handleError :: "thrown \<Rightarrow> VantigeSDKError" where
  "handleError error =
     (case error of
        ThrownSDK e \<Rightarrow> e
      | ThrownAxios axiosError \<Rightarrow>
          (case response axiosError of
             None \<Rightarrow>
               if AxiosError.code axiosError = Some ''ECONNABORTED''
               then createVantigeError REQUEST_TIMEOUT (JStr ''Request timed out'')
                      None JUndefined JUndefined
               else createVantigeError NETWORK_ERROR (JStr ''Network error occurred'')
                      None JUndefined JUndefined
           | Some res \<Rightarrow>
               let st = status res;
                   body = data res;
                   errorCode =
                     (if st = 401 then INVALID_API_KEY
                      else if st = 403 then INSUFFICIENT_PERMISSIONS
                      else if st = 404 then KNOWLEDGE_BASE_NOT_FOUND
                      else if st = 429 then RATE_LIMIT_EXCEEDED
                      else if st = 422 then VALIDATION_ERROR
                      else if st = 500 then INTERNAL_SERVER_ERROR
                      else if st = 503 then SERVICE_UNAVAILABLE
                      else NETWORK_ERROR)
               in createVantigeError errorCode
                    (js_or (js_or (js_get (js_get body ''error'') ''message'')
                                  (js_get body ''message''))
                       (JStr (AxiosError.message axiosError)))
                    (Some st)
                    (js_or (js_get (js_get body ''error'') ''details'') (js_get body ''details''))
                    (js_or (js_get (js_get body ''meta'') ''requestId'')
                       (case map_of (headers res) ''x-request-id'' of
                          Some v \<Rightarrow> v | None \<Rightarrow> JUndefined)))
      | ThrownOther m \<Rightarrow>
          createVantigeError INTERNAL_SERVER_ERROR (js_or m (JStr ''Unknown error occurred''))
            None JUndefined JUndefined)"

record HttpClientConfig =
  baseUrl :: string
  timeout :: int
  retries :: int
  auth :: VantigeAuth
  debug :: "bool option"

text \<open>
  The operation handed to the retry loop is a closure over the transport; it is modelled
  by the outcome of each of its invocations, in order: \<open>operation n\<close> is how the
  invocation after \<open>n\<close> earlier ones settles.
\<close>

datatype 'a outcome = Resolved 'a | Rejected thrown

text \<open>
  How a logical call settles. \<open>ThrownUndefined\<close> is the \<^verbatim>\<open>throw lastError!\<close> after a
  loop that never ran (a negative retry count), when \<^verbatim>\<open>lastError\<close> was never assigned.
\<close>

datatype 'a settled = Returned 'a | Thrown VantigeSDKError | ThrownUndefined

text \<open>
  What the loop does besides settling, in order: \<open>Invoke n\<close> is the invocation of the
  operation after \<open>n\<close> earlier ones, \<open>Sleep d\<close> the awaited timer of \<open>d\<close> milliseconds.
\<close>

datatype event = Invoke nat | Sleep int

definition nonRetryableErrors :: "VantigeErrorCode list" where
  "nonRetryableErrors =
     [INVALID_API_KEY, INSUFFICIENT_PERMISSIONS, VALIDATION_ERROR, KNOWLEDGE_BASE_NOT_FOUND]"

text \<open>
  The \<^verbatim>\<open>for\<close> loop of \<^verbatim>\<open>executeWithRetry\<close> from the iteration \<open>attempt\<close> on, with the
  \<^verbatim>\<open>lastError\<close> assigned so far. Every iteration invokes the operation once, so the
  iteration \<open>attempt\<close> makes the invocation after \<open>attempt\<close> earlier ones.
\<close>

function executeWithRetry_loop ::
  "HttpClientConfig \<Rightarrow> (nat \<Rightarrow> 'a outcome) \<Rightarrow> nat \<Rightarrow> VantigeSDKError option
     \<Rightarrow> 'a settled \<times> event list" where
  "executeWithRetry_loop config operation attempt lastError =
     (if int attempt \<le> retries config then
        (case operation attempt of
           Resolved v \<Rightarrow> (Returned v, [Invoke attempt])
         | Rejected error \<Rightarrow>
             let lastError' = (case error of ThrownSDK e \<Rightarrow> e | _ \<Rightarrow> handleError error)
             in if code lastError' \<in> set nonRetryableErrors then
                  (Thrown lastError', [Invoke attempt])
                else if int attempt = retries config then
                  (Thrown lastError', [Invoke attempt])
                else
                  let delay = min (1000 * 2 ^ attempt) 10000;
                      rest = executeWithRetry_loop config operation (attempt + 1) (Some lastError')
                  in (fst rest, Invoke attempt # Sleep delay # snd rest))
      else
        ((case lastError of None \<Rightarrow> ThrownUndefined | Some e \<Rightarrow> Thrown e), []))"
  by pat_completeness auto
termination
  by (relation "measure (\<lambda>(config, operation, attempt, lastError).
        nat (retries config + 1 - int attempt))") auto

definition executeWithRetry ::
  "HttpClientConfig \<Rightarrow> (nat \<Rightarrow> 'a outcome) \<Rightarrow> 'a settled \<times> event list" where
  "executeWithRetry config operation = executeWithRetry_loop config operation 0 None"

text \<open>
  The transport handle (the axios instance): how the \<open>n\<close>-th send of a request settles.
  The response interceptor installed by the constructor passes a response through and
  rejects with \<^verbatim>\<open>handleError(error)\<close>.
\<close>

datatype 'b request = GET string | POST string "'b option"

definition intercepted ::
  "('b request \<Rightarrow> nat \<Rightarrow> 'a outcome) \<Rightarrow> 'b request \<Rightarrow> nat \<Rightarrow> 'a outcome" where
  "intercepted transport req n =
     (case transport req n of
        Resolved res \<Rightarrow> Resolved res
      | Rejected error \<Rightarrow> Rejected (ThrownSDK (handleError error)))"

definition http_get ::
  "HttpClientConfig \<Rightarrow> ('b request \<Rightarrow> nat \<Rightarrow> 'a outcome) \<Rightarrow> string
     \<Rightarrow> 'a settled \<times> event list" where
  "http_get config transport url = executeWithRetry config (intercepted transport (GET url))"


section \<open>Domain operations (client/vantige-client.ts)\<close>



text \<open>
  \<^verbatim>\<open>URLSearchParams\<close>: the appended pairs in order. Its \<^verbatim>\<open>toString()\<close> is the
  form-urlencoded serialisation: letters, digits and \<^verbatim>\<open>* - . _\<close> stand for
  themselves, a space becomes \<^verbatim>\<open>+\<close>, every other byte of the UTF-8 encoding is
  percent-encoded.
\<close>

type_synonym URLSearchParams = "(string \<times> string) list"

definition hex_digit :: "nat \<Rightarrow> char" where
  "hex_digit d = ''0123456789ABCDEF'' ! d"

definition percent_byte :: "nat \<Rightarrow> string" where
  "percent_byte b = [CHR ''%'', hex_digit (b div 16), hex_digit (b mod 16)]"

definition form_encode_char :: "char \<Rightarrow> string" where
  "form_encode_char c =
     (let n = (of_char c :: nat)
      in if is_alnum c \<or> c \<in> set ''*-._'' then [c]
         else if c = CHR '' '' then ''+''
         else if n < 128 then percent_byte n
         else percent_byte (192 + n div 64) @ percent_byte (128 + n mod 64))"

definition form_encode :: "string \<Rightarrow> string" where
  "form_encode s = concat (map form_encode_char s)"

definition URLSearchParams_toString :: "URLSearchParams \<Rightarrow> string" where
  "URLSearchParams_toString ps =
     join ''&'' (map (\<lambda>(k, v). form_encode k @ ''='' @ form_encode v) ps)"

record ListKnowledgeBasesParams =
  page :: "int option"
  limit :: "int option"
  includeArchived :: "bool option"

record FieldMapping =
  sourceUri :: "string option"
  sourceDisplayName :: "string option"

record QueryParams =
  query :: string
  topK :: "int option"
  includeMetadata :: "bool option"
  useGeneration :: "bool option"
  fieldMapping :: "FieldMapping option"

text \<open>The decoded body of a 2xx response: the success flag and the rest of it.\<close>

record ApiResponse =
  success :: bool
  payload :: jsval

text \<open>
  The request path \<^verbatim>\<open>listKnowledgeBases\<close> builds. \<^verbatim>\<open>params?.page\<close> is \<open>None\<close> when
  there are no parameters or no page; \<^verbatim>\<open>if (params?.page)\<close> tests the number's
  truthiness, \<^verbatim>\<open>params?.includeArchived !== undefined\<close> its presence.
\<close>

definition listKnowledgeBases_url :: "ListKnowledgeBasesParams option \<Rightarrow> string" where
  "listKnowledgeBases_url params =
     (let q0 = ([] :: URLSearchParams);
          q1 = (case Option.bind params page of
                  Some n \<Rightarrow> if n \<noteq> 0 then q0 @ [(''page'', number_toString n)] else q0
                | None \<Rightarrow> q0);
          q2 = (case Option.bind params limit of
                  Some n \<Rightarrow> if n \<noteq> 0 then q1 @ [(''limit'', number_toString n)] else q1
                | None \<Rightarrow> q1);
          q3 = (case Option.bind params includeArchived of
                  Some b \<Rightarrow> q2 @ [(''includeArchived'', boolean_toString b)]
                | None \<Rightarrow> q2);
          queryString = URLSearchParams_toString q3
      in ''/api/v1/knowledge-base'' @ (if queryString \<noteq> [] then ''?'' @ queryString else []))"

definition listKnowledgeBases ::
  "HttpClientConfig \<Rightarrow> (QueryParams request \<Rightarrow> nat \<Rightarrow> ApiResponse outcome)
     \<Rightarrow> ListKnowledgeBasesParams option \<Rightarrow> ApiResponse settled \<times> event list" where
  "listKnowledgeBases config transport params =
     (let r = http_get config transport (listKnowledgeBases_url params)
      in case fst r of
           Returned res \<Rightarrow>
             if \<not> success res then
               (Thrown (createVantigeError SERVICE_UNAVAILABLE
                          (JStr ''Failed to list knowledge bases'') None JUndefined JUndefined),
                snd r)
             else r
         | _ \<Rightarrow> r)"



section \<open>Observations on a run\<close>

text \<open>The number of times the operation was invoked in a run.\<close>

definition invocations :: "event list \<Rightarrow> nat" where
  "invocations evs =
     length (filter (\<lambda>ev. case ev of Invoke n \<Rightarrow> True | Sleep d \<Rightarrow> False) evs)"

text \<open>
  The four rules on a credential as the specification lists them (non-empty, one of the
  two prefixes, the overall shape, the length floor of 40), each checked on its own:
  the messages of all the rules a key violates, in that order. This follows the
  specification's words, to be compared with what \<open>validateKeyFormat\<close> reports.
\<close>

definition spec_violated_rule_messages :: "string \<Rightarrow> string list" where
  "spec_violated_rule_messages k =
     (if k = [] then [''API key is required''] else [])
     @ (if \<not> (startsWith k ''vk_live_'' \<or> startsWith k ''vk_test_'')
        then [prefix_message] else [])
     @ (if \<not> keyPattern_test k then [''API key format is invalid''] else [])
     @ (if length k < 40 then [''API key is too short''] else [])"

section \<open>Scenario inputs\<close>

text \<open>Concrete inputs of the scenarios, used where a theorem is run on an example.\<close>

definition scenario_key :: string where
  "scenario_key = ''vk_test_abcdefghijklmnopqrstuvwxyz123456''"

definition scenario_config :: "int \<Rightarrow> HttpClientConfig" where
  "scenario_config n =
     \<lparr> baseUrl = ''https://api.vantige.ai'', timeout = 30000, retries = n,
       auth = \<lparr> apiKey = scenario_key, isTestKey = True \<rparr>,
       debug = Some False \<rparr>"

definition ok_response :: ApiResponse where
  "ok_response = \<lparr> success = True, payload = JObj [(''knowledgeBases'', JArr [])] \<rparr>"

text \<open>A connection failure: no response, and a code other than \<^verbatim>\<open>ECONNABORTED\<close>.\<close>

definition network_failure :: thrown where
  "network_failure = ThrownAxios \<lparr> AxiosError.code = Some ''ERR_NETWORK'',
     AxiosError.message = ''Network Error'', response = None \<rparr>"

text \<open>A 401 response.\<close>

definition unauthorized_failure :: thrown where
  "unauthorized_failure = ThrownAxios \<lparr> AxiosError.code = Some ''ERR_BAD_REQUEST'',
     AxiosError.message = ''Request failed with status code 401'',
     response = Some \<lparr> status = 401, data = JObj [(''error'', JStr ''Unauthorized'')],
                         headers = [] \<rparr> \<rparr>"


section \<open>The retry loop, step by step\<close>

declare executeWithRetry_loop.simps [simp del]


text \<open>The \<^verbatim>\<open>catch\<close> block's own test for an SDK error agrees with \<open>handleError\<close>.\<close>

lemma classify_catch:
  "(case error of ThrownSDK e \<Rightarrow> e | _ \<Rightarrow> handleError error) = handleError error"
  by (cases error) (simp_all add: handleError_def)

lemma loop_resolved:
  "int attempt \<le> retries config \<Longrightarrow> operation attempt = Resolved v \<Longrightarrow>
   executeWithRetry_loop config operation attempt lastError = (Returned v, [Invoke attempt])"
  by (subst executeWithRetry_loop.simps) simp

lemma loop_fatal:
  "int attempt \<le> retries config \<Longrightarrow> operation attempt = Rejected error \<Longrightarrow>
   code (handleError error) \<in> set nonRetryableErrors \<Longrightarrow>
   executeWithRetry_loop config operation attempt lastError
     = (Thrown (handleError error), [Invoke attempt])"
  by (subst executeWithRetry_loop.simps) (simp add: classify_catch Let_def)

lemma loop_exhausted:
  "int attempt = retries config \<Longrightarrow> operation attempt = Rejected error \<Longrightarrow>
   executeWithRetry_loop config operation attempt lastError
     = (Thrown (handleError error), [Invoke attempt])"
  by (subst executeWithRetry_loop.simps) (simp add: classify_catch Let_def)

lemma loop_retry:
  "int attempt < retries config \<Longrightarrow> operation attempt = Rejected error \<Longrightarrow>
   code (handleError error) \<notin> set nonRetryableErrors \<Longrightarrow>
   executeWithRetry_loop config operation attempt lastError
     = (fst (executeWithRetry_loop config operation (attempt + 1) (Some (handleError error))),
        Invoke attempt # Sleep (min (1000 * 2 ^ attempt) 10000)
          # snd (executeWithRetry_loop config operation (attempt + 1) (Some (handleError error))))"
  by (subst executeWithRetry_loop.simps) (simp add: classify_catch Let_def)

lemma loop_skipped:
  "\<not> int attempt \<le> retries config \<Longrightarrow>
   executeWithRetry_loop config operation attempt lastError
     = ((case lastError of None \<Rightarrow> ThrownUndefined | Some e \<Rightarrow> Thrown e), [])"
  by (subst executeWithRetry_loop.simps) simp

text \<open>Every attempt up to the budget \<open>N\<close> fails with a retryable kind.\<close>

lemma loop_always_failing:
  assumes fail: "\<And>n. n \<le> N \<Longrightarrow> \<exists>e. operation n = Rejected e \<and> code (handleError e) \<notin> set nonRetryableErrors"
    and N: "retries config = int N"
  shows "a \<le> N \<Longrightarrow>
     (\<exists>e. operation N = Rejected e \<and> fst (executeWithRetry_loop config operation a le) = Thrown (handleError e))
     \<and> invocations (snd (executeWithRetry_loop config operation a le)) = N + 1 - a"
proof (induction "N - a" arbitrary: a le)
  case 0
  then have "a = N" by simp
  from fail[of N] obtain e where e: "operation N = Rejected e" by auto
  show ?case using loop_exhausted[of a config operation e le] e N \<open>a = N\<close>
    by (simp add: invocations_def)
next
  case (Suc d)
  then have lt: "a < N" by simp
  from fail[of a] lt obtain e where e: "operation a = Rejected e" "code (handleError e) \<notin> set nonRetryableErrors" by auto
  have step: "executeWithRetry_loop config operation a le
     = (fst (executeWithRetry_loop config operation (a + 1) (Some (handleError e))),
        Invoke a # Sleep (min (1000 * 2 ^ a) 10000)
          # snd (executeWithRetry_loop config operation (a + 1) (Some (handleError e))))"
    using loop_retry[of a config operation e le] e lt N by simp
  have "d = N - (a + 1)" using Suc by simp
  from Suc(1)[OF this, of "Some (handleError e)"] lt
  show ?case by (simp add: step invocations_def)
qed

text \<open>The five ways one iteration of the loop goes.\<close>

lemma loop_cases:
  obtains
    (skipped) "\<not> int attempt \<le> retries config"
      "executeWithRetry_loop config operation attempt lastError
         = ((case lastError of None \<Rightarrow> ThrownUndefined | Some e \<Rightarrow> Thrown e), [])"
  | (resolved) v where "int attempt \<le> retries config" "operation attempt = Resolved v"
      "executeWithRetry_loop config operation attempt lastError = (Returned v, [Invoke attempt])"
  | (fatal) error where "int attempt \<le> retries config" "operation attempt = Rejected error"
      "code (handleError error) \<in> set nonRetryableErrors"
      "executeWithRetry_loop config operation attempt lastError
         = (Thrown (handleError error), [Invoke attempt])"
  | (exhausted) error where "int attempt = retries config" "operation attempt = Rejected error"
      "code (handleError error) \<notin> set nonRetryableErrors"
      "executeWithRetry_loop config operation attempt lastError
         = (Thrown (handleError error), [Invoke attempt])"
  | (retry) error where "int attempt < retries config" "operation attempt = Rejected error"
      "code (handleError error) \<notin> set nonRetryableErrors"
      "executeWithRetry_loop config operation attempt lastError
         = (fst (executeWithRetry_loop config operation (attempt + 1) (Some (handleError error))),
            Invoke attempt # Sleep (min (1000 * 2 ^ attempt) 10000)
              # snd (executeWithRetry_loop config operation (attempt + 1) (Some (handleError error))))"
proof (cases "int attempt \<le> retries config")
  case False
  show ?thesis by (rule skipped[OF False loop_skipped[OF False]])
next
  case le: True
  show ?thesis
  proof (cases "operation attempt")
    case (Resolved v)
    show ?thesis by (rule resolved[OF le Resolved loop_resolved[where operation=operation and attempt=attempt and config=config and lastError=lastError, OF le Resolved]])
  next
    case (Rejected error)
    show ?thesis
    proof (cases "code (handleError error) \<in> set nonRetryableErrors")
      case True
      show ?thesis by (rule fatal[OF le Rejected True loop_fatal[where operation=operation and attempt=attempt and config=config and lastError=lastError, OF le Rejected True]])
    next
      case nf: False
      show ?thesis
      proof (cases "int attempt = retries config")
        case True
        show ?thesis by (rule exhausted[OF True Rejected nf loop_exhausted[where operation=operation and attempt=attempt and config=config and lastError=lastError, OF True Rejected]])
      next
        case False
        then have lt: "int attempt < retries config" using le by simp
        show ?thesis by (rule retry[OF lt Rejected nf loop_retry[where operation=operation and attempt=attempt and config=config and lastError=lastError, OF lt Rejected nf]])
      qed
    qed
  qed
qed

text \<open>The events of a run by position: invocations at the even positions, each followed
  by the sleep of its attempt.\<close>

lemma loop_trace_nth:
  "i < length (snd (executeWithRetry_loop config operation a le)) \<Longrightarrow>
   snd (executeWithRetry_loop config operation a le) ! i
     = (if even i then Invoke (a + i div 2) else Sleep (min (1000 * 2 ^ (a + i div 2)) 10000))"
proof (induction "nat (retries config + 1 - int a)" arbitrary: a le i)
  case 0
  then have "\<not> int a \<le> retries config" by simp
  from loop_skipped[OF this, of operation le] "0.prems" show ?case by simp
next
  case (Suc d)
  show ?case
  proof (cases config operation a le rule: loop_cases)
    case skipped
    with Suc.prems show ?thesis by simp
  next
    case (resolved v)
    with Suc.prems show ?thesis by simp
  next
    case (fatal error)
    with Suc.prems show ?thesis by simp
  next
    case (exhausted error)
    with Suc.prems show ?thesis by simp
  next
    case (retry error)
    let ?rest = "snd (executeWithRetry_loop config operation (a + 1) (Some (handleError error)))"
    have d: "d = nat (retries config + 1 - int (a + 1))" using Suc.hyps(2) by simp
    show ?thesis
    proof (cases "i < 2")
      case True
      then have "i = 0 \<or> i = 1" by auto
      then show ?thesis using retry(4) by auto
    next
      case False
      then obtain j where j: "i = j + 2" using nat_le_iff_add[of 2 i] by auto
      then have jl: "j < length ?rest" using Suc.prems retry(4) by simp
      from Suc.hyps(1)[OF d jl] show ?thesis using retry(4) j by simp
    qed
  qed
qed

text \<open>An attempt that resolves, or that fails with a non-retryable kind, ends the run.\<close>

lemma loop_settles:
  assumes "Invoke n \<in> set (snd (executeWithRetry_loop config operation a le))"
    and "(\<exists>v. operation n = Resolved v \<and> r = Returned v)
         \<or> (\<exists>e. operation n = Rejected e \<and> code (handleError e) \<in> set nonRetryableErrors
                \<and> r = Thrown (handleError e))"
  shows "fst (executeWithRetry_loop config operation a le) = r
         \<and> last (snd (executeWithRetry_loop config operation a le)) = Invoke n
         \<and> invocations (snd (executeWithRetry_loop config operation a le)) = n + 1 - a
         \<and> count_list (snd (executeWithRetry_loop config operation a le)) (Invoke n) = 1
         \<and> a \<le> n"
  using assms
proof (induction "nat (retries config + 1 - int a)" arbitrary: a le)
  case 0
  then have "\<not> int a \<le> retries config" by simp
  from loop_skipped[OF this, of operation le] "0.prems" show ?case by simp
next
  case (Suc d)
  show ?case
  proof (cases config operation a le rule: loop_cases)
    case skipped
    with Suc.prems show ?thesis by simp
  next
    case (resolved v')
    with Suc.prems show ?thesis by (auto simp: invocations_def)
  next
    case (fatal error)
    with Suc.prems show ?thesis by (auto simp: invocations_def)
  next
    case (exhausted error)
    with Suc.prems show ?thesis by (auto simp: invocations_def)
  next
    case (retry error)
    let ?rest = "executeWithRetry_loop config operation (a + 1) (Some (handleError error))"
    have d: "d = nat (retries config + 1 - int (a + 1))" using Suc.hyps(2) by simp
    have "n \<noteq> a" using Suc.prems(2) retry(2,3) by auto
    then have mem: "Invoke n \<in> set (snd ?rest)" using Suc.prems(1) retry(4) by simp
    from Suc.hyps(1)[OF d mem Suc.prems(2)]
    have ih: "fst ?rest = r" "last (snd ?rest) = Invoke n"
      "invocations (snd ?rest) = n + 1 - (a + 1)" "count_list (snd ?rest) (Invoke n) = 1"
      "a + 1 \<le> n" by simp_all
    have ne: "snd ?rest \<noteq> []" using mem by auto
    show ?thesis using ih ne retry(4) \<open>n \<noteq> a\<close> by (simp add: invocations_def)
  qed
qed


lemma ErrorMessages_nonempty: "ErrorMessages k \<noteq> []"
  by (cases k) simp_all

lemma inj_enum_value: "enum_value a = enum_value b \<Longrightarrow> a = b"
  by (cases a; cases b; simp)

lemma keyPattern_length: "keyPattern_test k \<Longrightarrow> 40 \<le> length k"
  by (auto simp: keyPattern_test_def)

lemma keyPattern_prefix: "keyPattern_test k \<Longrightarrow> validateApiKey k"
  by (simp add: keyPattern_test_def validateApiKey_def)


section \<open>Classification of failures\<close>



text \<open>
  Claim C2, as amended. For every transport error without a response, \<open>handleError\<close>
  returns kind RequestTimeout when the error code is \<^verbatim>\<open>ECONNABORTED\<close> and kind
  NetworkError otherwise; in both cases no status is passed on, so the status code is
  the default 500 (not 408).
\<close>

theorem handleError_no_response:
  assumes "response axiosError = None"
  shows "code (handleError (ThrownAxios axiosError))
           = (if AxiosError.code axiosError = Some ''ECONNABORTED''
              then REQUEST_TIMEOUT else NETWORK_ERROR)
         \<and> statusCode (handleError (ThrownAxios axiosError)) = 500"
  using assms
  by (simp add: handleError_def createVantigeError_def new_VantigeSDKError_def)

text \<open>The theorem on a connection failure: NetworkError, with status code 500.\<close>

theorem handleError_no_response_witness:
  "code (handleError network_failure) = NETWORK_ERROR
   \<and> statusCode (handleError network_failure) = 500"
proof -
  let ?ax = "\<lparr> AxiosError.code = Some ''ERR_NETWORK'',
     AxiosError.message = ''Network Error'', response = None \<rparr>"
  have h: "response ?ax = None" by simp
  from handleError_no_response[OF h] show ?thesis
    by (simp add: network_failure_def)
qed

text \<open>
  Claim C2 as stated fails on a timeout: the kind is RequestTimeout, but the status
  code of the error is 500, where the claim has a 408-equivalent.
\<close>

theorem handleError_timeout_counterexample:
  "code (handleError (ThrownAxios
      \<lparr> AxiosError.code = Some ''ECONNABORTED'',
        AxiosError.message = ''timeout of 30000ms exceeded'', response = None \<rparr>))
     = REQUEST_TIMEOUT
   \<and> statusCode (handleError (ThrownAxios
      \<lparr> AxiosError.code = Some ''ECONNABORTED'',
        AxiosError.message = ''timeout of 30000ms exceeded'', response = None \<rparr>))
     = 500"
  by (simp add: handleError_def createVantigeError_def new_VantigeSDKError_def)

section \<open>The retry policy\<close>

text \<open>
  Claim C3. Whenever an attempt of a run (the invocation after \<open>n\<close> earlier ones,
  for any \<open>n\<close> and any retry budget) fails with an error classified as InvalidApiKey,
  InsufficientPermissions, ValidationError or KnowledgeBaseNotFound, the run throws
  that classified error, this invocation is the last event of the run (no sleep and no
  further attempt follows), and the operation was invoked once for it: \<open>n + 1\<close>
  invocations in all.
\<close>

theorem executeWithRetry_non_retryable:
  assumes "Invoke n \<in> set (snd (executeWithRetry config operation))"
    and "operation n = Rejected error"
    and "code (handleError error)
           \<in> {INVALID_API_KEY, INSUFFICIENT_PERMISSIONS, VALIDATION_ERROR, KNOWLEDGE_BASE_NOT_FOUND}"
  shows "fst (executeWithRetry config operation) = Thrown (handleError error)
         \<and> last (snd (executeWithRetry config operation)) = Invoke n
         \<and> count_list (snd (executeWithRetry config operation)) (Invoke n) = 1
         \<and> invocations (snd (executeWithRetry config operation)) = n + 1"
proof -
  have "code (handleError error) \<in> set nonRetryableErrors"
    using assms(3) by (simp add: nonRetryableErrors_def)
  then have "(\<exists>v. operation n = Resolved v \<and> Thrown (handleError error) = Returned v)
     \<or> (\<exists>e. operation n = Rejected e \<and> code (handleError e) \<in> set nonRetryableErrors
            \<and> Thrown (handleError error) = Thrown (handleError e))"
    using assms(2) by blast
  from loop_settles[OF assms(1)[unfolded executeWithRetry_def] this]
  show ?thesis by (simp add: executeWithRetry_def)
qed

text \<open>
  The theorem on a run with a budget of 5 retries whose first two attempts fail with a
  connection failure and whose third gets a 401 response: three invocations, the third
  being the only one for the 401, and InvalidApiKey with status 401 is thrown with
  three retries left.
\<close>

theorem executeWithRetry_non_retryable_witness:
  "fst (executeWithRetry (scenario_config 5)
          (\<lambda>n. if n < 2 then (Rejected network_failure :: ApiResponse outcome)
                else Rejected unauthorized_failure))
     = Thrown (handleError unauthorized_failure)
   \<and> code (handleError unauthorized_failure) = INVALID_API_KEY
   \<and> statusCode (handleError unauthorized_failure) = 401
   \<and> invocations (snd (executeWithRetry (scenario_config 5)
          (\<lambda>n. if n < 2 then (Rejected network_failure :: ApiResponse outcome)
                else Rejected unauthorized_failure))) = 3"
proof -
  let ?op = "\<lambda>n::nat. if n < 2 then (Rejected network_failure :: ApiResponse outcome)
                else Rejected unauthorized_failure"
  have h1: "Invoke 2 \<in> set (snd (executeWithRetry (scenario_config 5) ?op))" by code_simp
  have h2: "?op 2 = Rejected unauthorized_failure" by simp
  have c: "code (handleError unauthorized_failure) = INVALID_API_KEY" by code_simp
  have s: "statusCode (handleError unauthorized_failure) = 401" by code_simp
  have h3: "code (handleError unauthorized_failure)
           \<in> {INVALID_API_KEY, INSUFFICIENT_PERMISSIONS, VALIDATION_ERROR, KNOWLEDGE_BASE_NOT_FOUND}"
    using c by simp
  from executeWithRetry_non_retryable[OF h1 h2 h3] c s show ?thesis by simp
qed

text \<open>
  The same through the client's \<open>http_get\<close>, interceptor included, with a budget of 3:
  a transport that answers 401 is asked once.
\<close>

lemma http_get_unauthorized:
  "http_get (scenario_config 3)
     (\<lambda>(req :: QueryParams request) n. (Rejected unauthorized_failure :: ApiResponse outcome))
     ''/api/v1/knowledge-base''
     = (Thrown (handleError unauthorized_failure), [Invoke 0])"
  by code_simp

text \<open>
  Claim C4. With a retry budget \<open>N = retries config\<close> between 0 and 5: when every
  invocation of the operation fails with a retryable kind, the operation is invoked
  exactly \<open>N + 1\<close> times and the run throws the classified error of the last
  invocation; and whenever an attempt of the run resolves, the run returns that value,
  the attempt is the last event of the run, and it was the \<open>n + 1\<close>-th invocation of
  \<open>n + 1\<close> in all.
\<close>

theorem executeWithRetry_attempts:
  assumes "0 \<le> retries config" and "retries config \<le> 5"
  shows "((\<forall>n. \<exists>e. operation n = Rejected e \<and> code (handleError e) \<notin> set nonRetryableErrors)
           \<longrightarrow> invocations (snd (executeWithRetry config operation)) = nat (retries config) + 1
               \<and> (\<exists>e. operation (nat (retries config)) = Rejected e
                      \<and> fst (executeWithRetry config operation) = Thrown (handleError e)))
         \<and> (\<forall>n v. Invoke n \<in> set (snd (executeWithRetry config operation))
                    \<and> operation n = Resolved v
           \<longrightarrow> fst (executeWithRetry config operation) = Returned v
               \<and> last (snd (executeWithRetry config operation)) = Invoke n
               \<and> invocations (snd (executeWithRetry config operation)) = n + 1)"
proof (intro conjI impI allI)
  assume fail: "\<forall>n. \<exists>e. operation n = Rejected e \<and> code (handleError e) \<notin> set nonRetryableErrors"
  have N: "retries config = int (nat (retries config))" using assms(1) by simp
  from loop_always_failing[where operation=operation and N="nat (retries config)"
      and config=config and a=0 and le=None, OF _ N] fail
  have r: "(\<exists>e. operation (nat (retries config)) = Rejected e \<and>
         fst (executeWithRetry_loop config operation 0 None) = Thrown (handleError e)) \<and>
    invocations (snd (executeWithRetry_loop config operation 0 None)) = nat (retries config) + 1 - 0"
    by blast
  from r show "invocations (snd (executeWithRetry config operation)) = nat (retries config) + 1"
    by (simp add: executeWithRetry_def)
  from r show "\<exists>e. operation (nat (retries config)) = Rejected e
                      \<and> fst (executeWithRetry config operation) = Thrown (handleError e)"
    by (simp add: executeWithRetry_def)
next
  fix n v
  assume a: "Invoke n \<in> set (snd (executeWithRetry config operation)) \<and> operation n = Resolved v"
  then have mem: "Invoke n \<in> set (snd (executeWithRetry_loop config operation 0 None))"
    by (simp add: executeWithRetry_def)
  have dis: "(\<exists>w. operation n = Resolved w \<and> Returned v = Returned w)
     \<or> (\<exists>e. operation n = Rejected e \<and> code (handleError e) \<in> set nonRetryableErrors
            \<and> Returned v = Thrown (handleError e))" using a by simp
  note s = loop_settles[OF mem dis]
  from s show "fst (executeWithRetry config operation) = Returned v"
    by (simp add: executeWithRetry_def)
  from s show "last (snd (executeWithRetry config operation)) = Invoke n"
    by (simp add: executeWithRetry_def)
  from s show "invocations (snd (executeWithRetry config operation)) = n + 1"
    by (simp add: executeWithRetry_def)
qed


text \<open>
  The theorem on two runs: with a budget of 2 and a connection failure at every
  invocation, three invocations and the classified connection failure is thrown; with a
  budget of 3, three connection failures and then a success, the success is returned
  after exactly four invocations.
\<close>

theorem executeWithRetry_attempts_witness:
  "invocations (snd (executeWithRetry (scenario_config 2)
      (\<lambda>n. (Rejected network_failure :: ApiResponse outcome)))) = 3
   \<and> fst (executeWithRetry (scenario_config 2)
      (\<lambda>n. (Rejected network_failure :: ApiResponse outcome))) = Thrown (handleError network_failure)
   \<and> fst (executeWithRetry (scenario_config 3)
      (\<lambda>n. if n < 3 then Rejected network_failure else Resolved ok_response))
       = Returned ok_response
   \<and> invocations (snd (executeWithRetry (scenario_config 3)
      (\<lambda>n. if n < 3 then Rejected network_failure else Resolved ok_response))) = 4"
proof -
  let ?fail = "\<lambda>n::nat. (Rejected network_failure :: ApiResponse outcome)"
  let ?opD = "\<lambda>n::nat. if n < 3 then Rejected network_failure else Resolved ok_response"
  have b2: "0 \<le> retries (scenario_config 2)" "retries (scenario_config 2) \<le> 5"
    by (simp_all add: scenario_config_def)
  have b3: "0 \<le> retries (scenario_config 3)" "retries (scenario_config 3) \<le> 5"
    by (simp_all add: scenario_config_def)
  have retryable: "code (handleError network_failure) \<notin> set nonRetryableErrors"
    by code_simp
  then have always: "\<forall>n. \<exists>e. ?fail n = Rejected e \<and> code (handleError e) \<notin> set nonRetryableErrors"
    by simp
  have n2: "nat (retries (scenario_config 2)) = 2" by (simp add: scenario_config_def)
  from executeWithRetry_attempts[OF b2, of ?fail] always
  have first: "invocations (snd (executeWithRetry (scenario_config 2) ?fail)) = 3
     \<and> fst (executeWithRetry (scenario_config 2) ?fail) = Thrown (handleError network_failure)"
    by (simp add: n2)
  have reached: "Invoke 3 \<in> set (snd (executeWithRetry (scenario_config 3) ?opD))"
    by code_simp
  have resolves: "?opD 3 = Resolved ok_response" by simp
  note settled = executeWithRetry_attempts[OF b3, of ?opD, THEN conjunct2, rule_format,
      of 3 ok_response, OF conjI[OF reached resolves]]
  then have second: "fst (executeWithRetry (scenario_config 3) ?opD) = Returned ok_response
     \<and> invocations (snd (executeWithRetry (scenario_config 3) ?opD)) = 4"
    by simp
  from first second show ?thesis by simp
qed

text \<open>
  Claim C5. In every run, for every attempt number \<open>k \<ge> 1\<close>: the event right before
  the attempt \<open>k\<close> (the \<open>k\<close>-th retry, which follows the \<open>k\<close>-th failed attempt) is the
  awaited sleep of \<open>min (1000 * 2 ^ (k - 1)) 10000\<close> milliseconds, in exact integer
  arithmetic.
\<close>

theorem executeWithRetry_backoff:
  assumes "1 \<le> k"
    and "i < length (snd (executeWithRetry config operation))"
    and "snd (executeWithRetry config operation) ! i = Invoke k"
  shows "1 \<le> i
         \<and> snd (executeWithRetry config operation) ! (i - 1) = Sleep (min (1000 * 2 ^ (k - 1)) 10000)"
proof -
  let ?evs = "snd (executeWithRetry_loop config operation 0 None)"
  have il: "i < length ?evs" and ik: "?evs ! i = Invoke k"
    using assms(2,3) by (simp_all add: executeWithRetry_def)
  from loop_trace_nth[OF il] ik have ev: "even i" and k: "k = i div 2"
    by (auto split: if_splits)
  from k assms(1) have i2: "2 \<le> i" by auto
  then have pl: "i - 1 < length ?evs" using il by simp
  have od: "odd (i - 1)" using ev i2 by simp
  have "(i - 1) div 2 = k - 1" using ev i2 k by (auto elim!: evenE)
  with loop_trace_nth[OF pl] od have "?evs ! (i - 1) = Sleep (min (1000 * 2 ^ (k - 1)) 10000)"
    by simp
  then show ?thesis using i2 by (simp add: executeWithRetry_def)
qed

text \<open>
  The theorem on the run with a budget of 5 that fails at every invocation: the first
  retry waits 1000 ms and the fifth 10000 ms (the cap, below 16000).
\<close>

theorem executeWithRetry_backoff_witness:
  "snd (executeWithRetry (scenario_config 5)
      (\<lambda>n. (Rejected network_failure :: ApiResponse outcome))) ! 2 = Invoke 1
   \<and> snd (executeWithRetry (scenario_config 5)
      (\<lambda>n. (Rejected network_failure :: ApiResponse outcome))) ! 1 = Sleep 1000
   \<and> snd (executeWithRetry (scenario_config 5)
      (\<lambda>n. (Rejected network_failure :: ApiResponse outcome))) ! 10 = Invoke 5
   \<and> snd (executeWithRetry (scenario_config 5)
      (\<lambda>n. (Rejected network_failure :: ApiResponse outcome))) ! 9 = Sleep 10000"
proof -
  let ?evs = "snd (executeWithRetry (scenario_config 5)
      (\<lambda>n. (Rejected network_failure :: ApiResponse outcome)))"
  have len: "length ?evs = 11" by code_simp
  have at2: "?evs ! 2 = Invoke 1" by code_simp
  have at10: "?evs ! 10 = Invoke 5" by code_simp
  have l2: "2 < length ?evs" and l10: "10 < length ?evs" using len by simp_all
  have k1: "(1::nat) \<le> 1" and k5: "(1::nat) \<le> 5" by simp_all
  from executeWithRetry_backoff[OF k1 l2 at2] have "?evs ! 1 = Sleep 1000" by simp
  moreover from executeWithRetry_backoff[OF k5 l10 at10] have "?evs ! 9 = Sleep 10000" by simp
  ultimately show ?thesis using at2 at10 by simp
qed

section \<open>Redaction of the credential\<close>

text \<open>
  Claim C6. For every credential string held by the guard, \<open>maskApiKey\<close> returns a
  string of the same length; a string shorter than 12 characters is returned
  unchanged; a string of 12 characters or more keeps its first 8 and its last 4
  characters, and every position between them holds the character \<^verbatim>\<open>*\<close>.
\<close>

theorem maskApiKey_shape:
  "length (maskApiKey a) = length (apiKey a)
   \<and> (length (apiKey a) < 12 \<longrightarrow> maskApiKey a = apiKey a)
   \<and> (12 \<le> length (apiKey a) \<longrightarrow>
        take 8 (maskApiKey a) = take 8 (apiKey a)
        \<and> drop (length (apiKey a) - 4) (maskApiKey a) = drop (length (apiKey a) - 4) (apiKey a)
        \<and> (\<forall>i. 8 \<le> i \<and> i < length (apiKey a) - 4 \<longrightarrow> maskApiKey a ! i = CHR ''*''))"
  by (auto simp: maskApiKey_def Let_def nth_append)

text \<open>
  The theorem on the 40-character credential of the scenario (first 8 and last 4 kept,
  length 40, a star at position 8 and at position 35; the whole result is the prefix,
  28 stars and \<^verbatim>\<open>3456\<close>) and on an 11-character string injected into the state
  (unchanged).
\<close>

theorem maskApiKey_shape_witness:
  "length (maskApiKey \<lparr> apiKey = scenario_key, isTestKey = True \<rparr>) = 40
   \<and> take 8 (maskApiKey \<lparr> apiKey = scenario_key, isTestKey = True \<rparr>) = ''vk_test_''
   \<and> drop 36 (maskApiKey \<lparr> apiKey = scenario_key, isTestKey = True \<rparr>) = ''3456''
   \<and> maskApiKey \<lparr> apiKey = scenario_key, isTestKey = True \<rparr> ! 8 = CHR ''*''
   \<and> maskApiKey \<lparr> apiKey = scenario_key, isTestKey = True \<rparr> ! 35 = CHR ''*''
   \<and> maskApiKey \<lparr> apiKey = ''invalid_key'', isTestKey = False \<rparr> = ''invalid_key''
   \<and> maskApiKey \<lparr> apiKey = scenario_key, isTestKey = True \<rparr>
       = ''vk_test_'' @ replicate 28 (CHR ''*'') @ ''3456''"
proof -
  let ?a = "\<lparr> apiKey = scenario_key, isTestKey = True \<rparr>"
  let ?b = "\<lparr> apiKey = ''invalid_key'', isTestKey = False \<rparr>"
  have la: "length (apiKey ?a) = 40" by (simp add: scenario_key_def)
  have lb: "length (apiKey ?b) < 12" by simp
  note A = maskApiKey_shape[of ?a]
  have a1: "length (maskApiKey ?a) = 40" using A la by simp
  have long: "12 \<le> length (apiKey ?a)" using la by simp
  have a2: "take 8 (maskApiKey ?a) = take 8 (apiKey ?a)"
    and a3: "drop (length (apiKey ?a) - 4) (maskApiKey ?a) = drop (length (apiKey ?a) - 4) (apiKey ?a)"
    and a4: "\<forall>i. 8 \<le> i \<and> i < length (apiKey ?a) - 4 \<longrightarrow> maskApiKey ?a ! i = CHR ''*''"
    using A long by blast+
  have p8: "maskApiKey ?a ! 8 = CHR ''*''" using a4[rule_format, of 8] la by simp
  have p35: "maskApiKey ?a ! 35 = CHR ''*''" using a4[rule_format, of 35] la by simp
  have b1: "maskApiKey ?b = apiKey ?b" using maskApiKey_shape[of ?b] lb by blast
  have t8: "take 8 (apiKey ?a) = ''vk_test_''" by (simp add: scenario_key_def)
  have d36: "drop 36 (apiKey ?a) = ''3456''" by (simp add: scenario_key_def)
  have whole: "maskApiKey ?a = ''vk_test_'' @ replicate 28 (CHR ''*'') @ ''3456''"
    by code_simp
  from a1 a2 a3 p8 p35 b1 t8 d36 la whole show ?thesis by simp
qed

section \<open>Validation at the boundary\<close>




section \<open>Construction and serialisation of errors\<close>

text \<open>
  Claim C8, as amended. \<open>createVantigeError\<close> is a total function, and for every kind
  \<open>k\<close> of the enumeration the error built from the kind alone has the kind \<open>k\<close> in
  its \<open>toJSON\<close> record, the message \<open>ErrorMessages k\<close>, the status code 500 (the one
  default of the code, for every kind) and no details. A details payload that is not
  an array and is truthy (every object is) becomes a one-element list; a payload that
  is not an array and is falsy (\<^verbatim>\<open>undefined\<close>, \<^verbatim>\<open>null\<close>, \<^verbatim>\<open>false\<close>, 0, the empty
  string) becomes the empty list.
\<close>

theorem createVantigeError_defaults:
  "js_get (toJSON (createVantigeError k JUndefined None JUndefined JUndefined)) ''code''
     = JStr (enum_value k)
   \<and> code (createVantigeError k JUndefined None JUndefined JUndefined) = k
   \<and> message (createVantigeError k JUndefined None JUndefined JUndefined) = ErrorMessages k
   \<and> statusCode (createVantigeError k JUndefined None JUndefined JUndefined) = 500
   \<and> details (createVantigeError k JUndefined None JUndefined JUndefined) = []
   \<and> (\<not> isArray d \<and> truthy d \<longrightarrow> details (createVantigeError k m sc d r) = [d])
   \<and> (\<not> isArray d \<and> \<not> truthy d \<longrightarrow> details (createVantigeError k m sc d r) = [])"
  by (cases d) (simp_all add: toJSON_def createVantigeError_def new_VantigeSDKError_def js_or_def)

text \<open>
  The theorem on the kind RateLimitExceeded, with an object as details and with
  \<^verbatim>\<open>null\<close> as details.
\<close>

theorem createVantigeError_defaults_witness:
  "js_get (toJSON (createVantigeError RATE_LIMIT_EXCEEDED JUndefined None JUndefined JUndefined))
      ''code'' = JStr ''RATE_LIMIT_EXCEEDED''
   \<and> message (createVantigeError RATE_LIMIT_EXCEEDED JUndefined None JUndefined JUndefined)
       = ''Rate limit exceeded. Please try again later''
   \<and> statusCode (createVantigeError RATE_LIMIT_EXCEEDED JUndefined None JUndefined JUndefined) = 500
   \<and> details (createVantigeError RATE_LIMIT_EXCEEDED JUndefined None
                (JObj [(''field'', JStr ''query'')]) JUndefined)
       = [JObj [(''field'', JStr ''query'')]]
   \<and> details (createVantigeError RATE_LIMIT_EXCEEDED JUndefined None JNull JUndefined) = []"
proof -
  let ?d = "JObj [(''field'', JStr ''query'')]"
  have h1: "\<not> isArray ?d \<and> truthy ?d" by simp
  have h2: "\<not> isArray JNull \<and> \<not> truthy JNull" by simp
  note A = createVantigeError_defaults[of RATE_LIMIT_EXCEEDED ?d JUndefined None JUndefined]
  note B = createVantigeError_defaults[of RATE_LIMIT_EXCEEDED JNull JUndefined None JUndefined]
  from A h1 have a: "details (createVantigeError RATE_LIMIT_EXCEEDED JUndefined None ?d JUndefined) = [?d]"
    by blast
  from B h2 have b: "details (createVantigeError RATE_LIMIT_EXCEEDED JUndefined None JNull JUndefined) = []"
    by blast
  from A a b show ?thesis by simp
qed

text \<open>
  Claim C8 as stated fails for a details payload that is not an array and is falsy:
  the empty string is a single non-array payload, and the error has no details rather
  than the one-element list. The default status is no table either: an error built
  from the kind InvalidApiKey alone has status 500, where the classification table
  pairs that kind with 401.
\<close>

theorem createVantigeError_details_counterexample:
  "\<not> isArray (JStr [])
   \<and> details (createVantigeError VALIDATION_ERROR JUndefined None (JStr []) JUndefined) = []
   \<and> details (createVantigeError VALIDATION_ERROR JUndefined None (JStr []) JUndefined)
       \<noteq> [JStr []]
   \<and> statusCode (createVantigeError INVALID_API_KEY JUndefined None JUndefined JUndefined) = 500"
  by (simp add: createVantigeError_def new_VantigeSDKError_def)

section \<open>The two validators of the credential\<close>

text \<open>
  Claim C9, as amended. The constructor path \<open>validateAndSetApiKey\<close> and the
  reporting validator \<open>validateKeyFormat\<close> accept exactly the same strings: for
  every string \<open>s\<close>, construction succeeds if and only if \<open>validateKeyFormat s\<close> is
  valid. For every non-empty \<open>s\<close>, \<open>validateKeyFormat\<close> reports the message of every
  violated rule; for the empty string it returns at once and reports the one message
  that the key is required. When the constructor throws, its error carries a single
  message, the first of those \<open>validateKeyFormat\<close> reports, and no details.
\<close>

theorem key_validation_agree:
  "(isValid (validateKeyFormat s) \<longleftrightarrow> (\<exists>a. validateAndSetApiKey s = Inr a))
   \<and> (s \<noteq> [] \<longrightarrow> errors (validateKeyFormat s) = spec_violated_rule_messages s)
   \<and> (s = [] \<longrightarrow> errors (validateKeyFormat s) = [''API key is required''])
   \<and> (\<forall>e. validateAndSetApiKey s = Inl e \<longrightarrow>
          message e = hd (errors (validateKeyFormat s)) \<and> details e = []
          \<and> \<not> isValid (validateKeyFormat s))"
  using keyPattern_length[of s] keyPattern_prefix[of s]
  by (auto simp: validateKeyFormat_def validateAndSetApiKey_def spec_violated_rule_messages_def
        Let_def validateApiKey_def createVantigeError_def new_VantigeSDKError_def js_or_def
        prefix_message_def)

text \<open>
  The theorem on the scenario's credential (valid, and the constructor succeeds), on
  \<^verbatim>\<open>invalid_key\<close> (three violated rules reported, the constructor throws with the
  first of them, the message on the prefixes) and on the empty string.
\<close>

theorem key_validation_agree_witness:
  "isValid (validateKeyFormat scenario_key)
   \<and> validateAndSetApiKey scenario_key = Inr \<lparr> apiKey = scenario_key, isTestKey = True \<rparr>
   \<and> errors (validateKeyFormat ''invalid_key'')
       = [prefix_message, ''API key format is invalid'', ''API key is too short'']
   \<and> (\<exists>e. validateAndSetApiKey ''invalid_key'' = Inl e \<and> message e = prefix_message)
   \<and> errors (validateKeyFormat []) = [''API key is required'']"
proof -
  have built: "validateAndSetApiKey scenario_key = Inr \<lparr> apiKey = scenario_key, isTestKey = True \<rparr>"
    by code_simp
  then have "\<exists>a. validateAndSetApiKey scenario_key = Inr a" by blast
  with key_validation_agree[of scenario_key] have valid: "isValid (validateKeyFormat scenario_key)"
    by blast
  have ne: "''invalid_key'' \<noteq> []" by simp
  have rules: "spec_violated_rule_messages ''invalid_key''
       = [prefix_message, ''API key format is invalid'', ''API key is too short'']"
    by code_simp
  note B = key_validation_agree[of "''invalid_key''"]
  from B ne rules have reported: "errors (validateKeyFormat ''invalid_key'')
       = [prefix_message, ''API key format is invalid'', ''API key is too short'']"
    by simp
  obtain e where thrown: "validateAndSetApiKey ''invalid_key'' = Inl e"
    by (simp add: validateAndSetApiKey_def validateApiKey_def startsWith_def)
  with B have "message e = hd (errors (validateKeyFormat ''invalid_key''))" by blast
  with reported thrown have single: "\<exists>e. validateAndSetApiKey ''invalid_key'' = Inl e
      \<and> message e = prefix_message" by simp
  have empty: "errors (validateKeyFormat []) = [''API key is required'']"
    using key_validation_agree[of "[]"] by blast
  from valid built reported single empty show ?thesis by blast
qed

text \<open>
  Claim C9 as stated fails on the empty string: it violates all four rules, and
  \<open>validateKeyFormat\<close> reports only the first.
\<close>

theorem validateKeyFormat_empty_counterexample:
  "errors (validateKeyFormat []) = [''API key is required'']
   \<and> spec_violated_rule_messages []
       = [''API key is required'', prefix_message, ''API key format is invalid'',
          ''API key is too short'']
   \<and> errors (validateKeyFormat []) \<noteq> spec_violated_rule_messages []"
  by (simp add: validateKeyFormat_def spec_violated_rule_messages_def startsWith_def keyPattern_test_def)

section \<open>The path of the list operation\<close>

text \<open>Appending one pair to the parameters appends it to their serialisation.\<close>

lemma join_snoc: "join sep (xs @ [x]) = (if xs = [] then x else join sep xs @ sep @ x)"
  by (induction sep xs rule: join.induct) auto

lemma join_nonempty: "xs \<noteq> [] \<Longrightarrow> \<forall>x \<in> set xs. x \<noteq> [] \<Longrightarrow> join sep xs \<noteq> []"
  by (induction sep xs rule: join.induct) auto

lemma URLSearchParams_toString_snoc:
  "URLSearchParams_toString (ps @ [(k, v)])
     = (if ps = [] then form_encode k @ ''='' @ form_encode v
        else URLSearchParams_toString ps @ ''&'' @ form_encode k @ ''='' @ form_encode v)"
  by (simp add: URLSearchParams_toString_def join_snoc)

lemma URLSearchParams_toString_empty: "URLSearchParams_toString ps = [] \<longleftrightarrow> ps = []"
proof
  assume "URLSearchParams_toString ps = []"
  show "ps = []"
  proof (rule ccontr)
    assume "ps \<noteq> []"
    then have "join ''&'' (map (\<lambda>(k, v). form_encode k @ ''='' @ form_encode v) ps) \<noteq> []"
      by (intro join_nonempty) auto
    with \<open>URLSearchParams_toString ps = []\<close> show False
      by (simp add: URLSearchParams_toString_def)
  qed
next
  assume "ps = []" then show "URLSearchParams_toString ps = []"
    by (simp add: URLSearchParams_toString_def)
qed

text \<open>
  Claim C10. In the path \<open>listKnowledgeBases\<close> requests, a supplied page of 0 gives
  the same path as no page, and a supplied limit of 0 the same path as no limit,
  whatever the other parameters are; a supplied \<^verbatim>\<open>includeArchived\<close> of \<^verbatim>\<open>false\<close> is
  written as \<^verbatim>\<open>includeArchived=false\<close> at the end of the path (after \<^verbatim>\<open>?\<close> when
  it is the only parameter written, after \<^verbatim>\<open>&\<close> otherwise); and the parameters \<^verbatim>\<open>{page: 0, limit: 0}\<close>
  give the path without any query string, and the operation then behaves as it does
  without parameters.
\<close>

theorem listKnowledgeBases_url_zero:
  "listKnowledgeBases_url (Some (p\<lparr>page := Some 0\<rparr>))
     = listKnowledgeBases_url (Some (p\<lparr>page := None\<rparr>))
   \<and> listKnowledgeBases_url (Some (p\<lparr>limit := Some 0\<rparr>))
     = listKnowledgeBases_url (Some (p\<lparr>limit := None\<rparr>))
   \<and> listKnowledgeBases_url (Some (p\<lparr>includeArchived := Some False\<rparr>))
     = listKnowledgeBases_url (Some (p\<lparr>includeArchived := None\<rparr>))
       @ (if listKnowledgeBases_url (Some (p\<lparr>includeArchived := None\<rparr>))
               = ''/api/v1/knowledge-base''
          then ''?'' else ''&'')
       @ ''includeArchived=false''
   \<and> listKnowledgeBases_url (Some \<lparr>page = Some 0, limit = Some 0, includeArchived = None\<rparr>)
     = ''/api/v1/knowledge-base''
   \<and> listKnowledgeBases config transport
        (Some \<lparr>page = Some 0, limit = Some 0, includeArchived = None\<rparr>)
     = listKnowledgeBases config transport None"
  by (auto simp: listKnowledgeBases_def listKnowledgeBases_url_def Let_def
        URLSearchParams_toString_snoc URLSearchParams_toString_empty boolean_toString_def
        form_encode_def form_encode_char_def is_alnum_def split: option.splits
        simp del: append_assoc)

end
